theory Spec2Isabelle
  imports Main "HOL-Library.Product_Lexorder" "HOL-Library.AList" "HOL-Library.Multiset"
begin

section \<open>Python values used by player\_transfer\_value\_scraper.py\<close>

text \<open>
  Exceptions are values: every function that can raise returns \<open>error + 'a\<close>, with
  \<open>Inl\<close> for the exception that leaves the function.
\<close>

datatype error =
    RequestException
  | ValueError
  | TypeError
  | IndexError
  | KeyError
  | AttributeError
  | OverflowError
  | EvalError

text \<open>
  A \<open>datetime\<close> is (year, month, day, hour, minute); the program never sets seconds or
  microseconds. Python compares two datetimes field by field from the year down, which is
  the lexicographic order of the tuple.
\<close>

type_synonym datetime = "nat \<times> nat \<times> nat \<times> nat \<times> nat"

definition dt_year :: "datetime \<Rightarrow> nat" where
  "dt_year d = fst d"

definition dt_month :: "datetime \<Rightarrow> nat" where
  "dt_month d = fst (snd d)"

definition dt_day :: "datetime \<Rightarrow> nat" where
  "dt_day d = fst (snd (snd d))"

subsection \<open>Strings\<close>

text \<open>
  \<open>str.strip()\<close> removes the white space of Python on both ends; among the code points
  below 256 these are 9 to 13, 28 to 32, 133 and 160.
\<close>

definition py_isspace :: "char \<Rightarrow> bool" where
  "py_isspace c = (of_char c \<in> set [9, 10, 11, 12, 13, 28, 29, 30, 31, 32, 133, 160 :: nat])"

definition py_strip :: "string \<Rightarrow> string" where
  "py_strip s = rev (dropWhile py_isspace (rev (dropWhile py_isspace s)))"

text \<open>\<open>s.split(sep)\<close> for a separator of one character: the pieces between the separators.\<close>

fun py_split :: "char \<Rightarrow> string \<Rightarrow> string list" where
  "py_split sep [] = [[]]"
| "py_split sep (c # cs) =
     (if c = sep then [] # py_split sep cs
      else (case py_split sep cs of
              [] \<Rightarrow> [[c]]
            | p # ps \<Rightarrow> (c # p) # ps))"

text \<open>\<open>sep.join(parts)\<close>.\<close>

fun py_join :: "string \<Rightarrow> string list \<Rightarrow> string" where
  "py_join sep [] = []"
| "py_join sep [p] = p"
| "py_join sep (p # q # ps) = p @ sep @ py_join sep (q # ps)"

text \<open>\<open>xs[i]\<close> for a non-negative index: IndexError out of range.\<close>

definition py_index :: "'a list \<Rightarrow> nat \<Rightarrow> error + 'a" where
  "py_index xs i = (if i < length xs then Inr (xs ! i) else Inl IndexError)"

text \<open>
  \<open>s.replace(old, new)\<close>: every occurrence of \<open>old\<close>, found from the left and not
  overlapping, becomes \<open>new\<close>. The program only replaces non-empty strings.
\<close>

fun py_replace :: "string \<Rightarrow> string \<Rightarrow> string \<Rightarrow> string" where
  "py_replace old new [] = []"
| "py_replace old new (c # cs) =
     (if old \<noteq> [] \<and> take (length old) (c # cs) = old
      then new @ py_replace old new (drop (length old) (c # cs))
      else c # py_replace old new cs)"

subsection \<open>Numbers and dates read from strings\<close>

definition char_between :: "char \<Rightarrow> char \<Rightarrow> char \<Rightarrow> bool" where
  "char_between lo hi c = ((of_char lo :: nat) \<le> of_char c \<and> (of_char c :: nat) \<le> of_char hi)"

definition is_digit :: "char \<Rightarrow> bool" where
  "is_digit c = char_between (CHR ''0'') (CHR ''9'') c"

definition digit_val :: "char \<Rightarrow> nat" where
  "digit_val c = of_char c - 48"

definition digits_val :: "string \<Rightarrow> nat" where
  "digits_val s = foldl (\<lambda>n c. 10 * n + digit_val c) 0 s"

text \<open>
  \<open>int(s)\<close> on a string: white space around the number is dropped, one sign may lead, and
  the digits may be grouped by single underscores. Anything else is a ValueError. The white
  space of \<open>int\<close> is narrower than that of \<open>strip\<close>: the code points 28 to 31 are not
  part of it, so \<open>int\<close> rejects a string that starts or ends with one of them.
\<close>

definition int_isspace :: "char \<Rightarrow> bool" where
  "int_isspace c = (of_char c \<in> set [9, 10, 11, 12, 13, 32, 133, 160 :: nat])"

definition int_strip :: "string \<Rightarrow> string" where
  "int_strip s = rev (dropWhile int_isspace (rev (dropWhile int_isspace s)))"

definition int_digits :: "string \<Rightarrow> error + int" where
  "int_digits s =
     (let groups = py_split (CHR ''_'') s in
      if list_all (\<lambda>g. g \<noteq> [] \<and> list_all is_digit g) groups
      then Inr (int (digits_val (concat groups)))
      else Inl ValueError)"

definition py_int :: "string \<Rightarrow> error + int" where
  "py_int s =
     (case int_strip s of
        [] \<Rightarrow> Inl ValueError
      | c # cs \<Rightarrow>
          if c = CHR ''-'' then (case int_digits cs of Inl e \<Rightarrow> Inl e | Inr n \<Rightarrow> Inr (- n))
          else if c = CHR ''+'' then int_digits cs
          else int_digits (c # cs))"

definition is_leap :: "nat \<Rightarrow> bool" where
  "is_leap y = (y mod 4 = 0 \<and> (y mod 100 \<noteq> 0 \<or> y mod 400 = 0))"

definition days_in_month :: "nat \<Rightarrow> nat \<Rightarrow> nat" where
  "days_in_month y m =
     (if m = 2 then (if is_leap y then 29 else 28)
      else if m \<in> set [4, 6, 9, 11] then 30 else 31)"

text \<open>
  The constructor \<open>datetime(year, month, day, hour, minute)\<close>. Every argument must fit
  the C type \<open>int\<close>, or the call ends in an OverflowError; then it is a ValueError unless
  the year is in 1..9999 and the other fields name a day of the calendar and a minute of
  the day.
\<close>

definition c_int :: "int \<Rightarrow> bool" where
  "c_int n = (- 2147483648 \<le> n \<and> n \<le> 2147483647)"

definition mk_datetime :: "int \<Rightarrow> int \<Rightarrow> int \<Rightarrow> int \<Rightarrow> int \<Rightarrow> error + datetime" where
  "mk_datetime y m d h mi =
     (if \<not> (c_int y \<and> c_int m \<and> c_int d \<and> c_int h \<and> c_int mi) then Inl OverflowError
      else if 1 \<le> y \<and> y \<le> 9999 \<and> 1 \<le> m \<and> m \<le> 12 \<and>
         1 \<le> d \<and> d \<le> int (days_in_month (nat y) (nat m)) \<and>
         0 \<le> h \<and> h \<le> 23 \<and> 0 \<le> mi \<and> mi \<le> 59
      then Inr (nat y, nat m, nat d, nat h, nat mi)
      else Inl ValueError)"

text \<open>
  \<open>datetime(int(year), 10, 1, 0, 0)\<close>, the season start used by the aligner and by the age
  computation; \<open>year\<close> is a string throughout the program.
\<close>

definition season_start :: "string \<Rightarrow> error + datetime" where
  "season_start year =
     (case py_int year of
        Inl e \<Rightarrow> Inl e
      | Inr y \<Rightarrow> mk_datetime y 10 1 0 0)"

text \<open>
  \<open>datetime.strptime(s, '%d/%m/%Y')\<close>. The day is one of 01..31, 1..9 or a space and one
  of 1..9, the month one of 01..12 or 1..9, the year four digits, separated by slashes with
  nothing before or after; the fields then go through the constructor.
\<close>

definition day_field :: "string \<Rightarrow> bool" where
  "day_field s =
     (case s of
        [a] \<Rightarrow> char_between (CHR ''1'') (CHR ''9'') a
      | [a, b] \<Rightarrow>
          (a = CHR ''3'' \<and> (b = CHR ''0'' \<or> b = CHR ''1'')) \<or>
          ((a = CHR ''1'' \<or> a = CHR ''2'') \<and> is_digit b) \<or>
          ((a = CHR ''0'' \<or> a = CHR '' '') \<and> char_between (CHR ''1'') (CHR ''9'') b)
      | _ \<Rightarrow> False)"

definition month_field :: "string \<Rightarrow> bool" where
  "month_field s =
     (case s of
        [a] \<Rightarrow> char_between (CHR ''1'') (CHR ''9'') a
      | [a, b] \<Rightarrow>
          (a = CHR ''1'' \<and> (b = CHR ''0'' \<or> b = CHR ''1'' \<or> b = CHR ''2'')) \<or>
          (a = CHR ''0'' \<and> char_between (CHR ''1'') (CHR ''9'') b)
      | _ \<Rightarrow> False)"

definition year_field :: "string \<Rightarrow> bool" where
  "year_field s = (length s = 4 \<and> list_all is_digit s)"

definition strptime_dmY :: "string \<Rightarrow> error + datetime" where
  "strptime_dmY s =
     (case py_split (CHR ''/'') s of
        [d, m, y] \<Rightarrow>
          if day_field d \<and> month_field m \<and> year_field y
          then mk_datetime (int (digits_val y)) (int (digits_val m))
                 (int (digits_val (filter is_digit d))) 0 0
          else Inl ValueError
      | _ \<Rightarrow> Inl ValueError)"

section \<open>Season alignment\<close>

text \<open>
  A valuation history is the list of \<open>(value, datetime)\<close> tuples that
  \<open>scrape_player_market_value_history\<close> returns; Python's \<open>None\<close> in its place is
  \<open>None\<close> of the option type.
\<close>

type_synonym history = "(int \<times> datetime) list"

text \<open>
  The \<open>for\<close> loop of \<open>get_season_player_market_value\<close> over the two local variables
  \<open>transfer_value_before_season_start\<close> and \<open>transfer_value_before_season_start_date\<close>;
  the \<open>break\<close> ends the recursion.
\<close>

fun season_loop ::
  "datetime \<Rightarrow> history \<Rightarrow> int option \<times> datetime option \<Rightarrow> int option \<times> datetime option" where
  "season_loop ssd [] acc = acc"
| "season_loop ssd ((v, vd) # rest) (tv, tvd) =
     (if vd \<le> ssd then season_loop ssd rest (Some v, Some vd)
      else (if tv = None then (Some v, Some vd) else (tv, tvd)))"

definition get_season_player_market_value ::
  "string \<Rightarrow> history option \<Rightarrow> error + (int option \<times> datetime option)" where
  "get_season_player_market_value year transfer_value_history =
     (case transfer_value_history of
        None \<Rightarrow> Inr (None, None)
      | Some h \<Rightarrow>
          (case season_start year of
             Inl e \<Rightarrow> Inl e
           | Inr ssd \<Rightarrow>
               (case season_loop ssd h (None, None) of
                  (None, tvd) \<Rightarrow>
                    (case py_index h 0 of
                       Inl e \<Rightarrow> Inl e
                     | Inr first \<Rightarrow> Inr (Some (fst first), Some (snd first)))
                | (Some v, tvd) \<Rightarrow> Inr (Some v, tvd))))"

section \<open>Player records and the age at season start\<close>

text \<open>
  The values a player record holds: \<open>None\<close>, a string, or the integer market value.
\<close>

datatype pyval = PyNone | PyStr string | PyInt int

text \<open>
  A Python \<open>dict\<close> whose order of insertion matters is an association list with distinct
  keys: \<open>AList.update\<close> overwrites a key in place and appends a new key at the end, as the
  assignment \<open>d[k] = v\<close> does.
\<close>

type_synonym player_data = "(string \<times> pyval) list"

definition py_get :: "('k \<times> 'v) list \<Rightarrow> 'k \<Rightarrow> error + 'v" where
  "py_get d k = (case map_of d k of None \<Rightarrow> Inl KeyError | Some v \<Rightarrow> Inr v)"

definition calculate_player_age :: "string \<Rightarrow> player_data \<Rightarrow> error + int option" where
  "calculate_player_age year player_data =
     (case map_of player_data ''dob'' of
        None \<Rightarrow> Inr None
      | Some PyNone \<Rightarrow> Inl TypeError
      | Some (PyInt n) \<Rightarrow> Inl TypeError
      | Some (PyStr s) \<Rightarrow>
          (case strptime_dmY s of
             Inl e \<Rightarrow> Inl e
           | Inr dob \<Rightarrow>
               (case season_start year of
                  Inl e \<Rightarrow> Inl e
                | Inr season_start_date \<Rightarrow>
                    (case py_int year of
                       Inl e \<Rightarrow> Inl e
                     | Inr y \<Rightarrow>
                         (let age = y - int (dt_year dob) in
                          if dt_month season_start_date < dt_month dob \<or>
                             (dt_month season_start_date = dt_month dob \<and>
                              dt_day season_start_date < dt_day dob)
                          then Inr (Some (age - 1))
                          else Inr (Some age))))))"

section \<open>The outside world: pages, evaluation, files\<close>

text \<open>
  \<open>get_page_soup\<close> hands back a BeautifulSoup tree. The program asks three things of it:
  the \<open>href\<close> of every anchor that \<open>soup.select(selector)\<close> finds, the rows of the table
  \<open>soup.find('table', attrs={'class': 'auflistung'})\<close> (for every \<open>tr\<close> the texts of its
  \<open>th\<close> and of its \<open>td\<close> cells; \<open>None\<close> when the page has no such table), and
  \<open>str(script)\<close> for every script block of \<open>soup.findAll('script')\<close>, in document order.
\<close>

record soup =
  select_hrefs :: "string \<Rightarrow> string list"
  auflistung_rows :: "(string list \<times> string list) list option"
  script_blocks :: "string list"

text \<open>
  One object of the array that the valuation page carries, as the source documents it; the
  record of the series holds the list under its key \<open>data\<close>.
\<close>

record value_row =
  row_y :: int
  row_verein :: string
  row_age :: int
  row_mw :: string
  row_datum_mw :: string
  row_x :: int
  row_marker :: string

record series =
  series_data :: "value_row list"

text \<open>
  What the program takes from its libraries and its surroundings, passed as a parameter:
  \<^item> \<open>get_page\<close>: \<open>requests_retry_session().get\<close> followed by the parser, or the
    \<open>RequestException\<close> that ends the retries;
  \<^item> \<open>eval_series\<close>: Python's \<open>eval\<close> on the text cut from the script, with \<open>Inl\<close> for
    whatever \<open>eval\<close> or the subscripts \<open>['data']\<close>, \<open>['y']\<close>, \<open>['datum_mw']\<close> raise on
    a value of another shape;
  \<^item> \<open>strptime_b\<close>: \<open>datetime.strptime\<close> with a format that contains \<open>%b\<close>, whose month
    names belong to the locale; the format comes first;
  \<^item> \<open>strftime_Y\<close>: what \<open>strftime\<close> writes for \<open>%Y\<close>, which is the work of the C
    library: the bare number with some, four digits with leading zeros with others;
  \<^item> \<open>set_order\<close>: the order in which a \<open>set\<close> of strings is iterated, which follows
    the hash seed of the run.
\<close>

record env =
  get_page :: "string \<Rightarrow> error + soup"
  eval_series :: "string \<Rightarrow> error + series"
  strptime_b :: "string \<Rightarrow> string \<Rightarrow> error + datetime"
  strftime_Y :: "nat \<Rightarrow> string"
  set_order :: "string list \<Rightarrow> string list"

text \<open>
  An entry of the link cache is the dict with the keys \<open>year_team_links\<close> and
  \<open>team_player_links\<close>, here the two fields of a record. A field is \<open>None\<close> when its key is missing or holds \<open>None\<close>:
  \<open>load_scrape_year_links\<close> reads both into a local variable that is \<open>None\<close> in either
  case. The links of the players are a dict from team to list, iterated by \<open>main\<close>.
\<close>

record links_entry =
  entry_year_team_links :: "string list option"
  entry_team_player_links :: "(string \<times> string list) list option"

text \<open>
  The state: the three pickle files (\<open>None\<close> when the file does not exist, which
  \<open>open\<close> answers with \<open>FileNotFoundError\<close>), the pages requested so far and the files
  written so far, both in order.
\<close>

record sys =
  links_cache_pickle :: "(string \<rightharpoonup> links_entry) option"
  extracted_player_data_pickle :: "(string \<rightharpoonup> player_data) option"
  player_transfer_value_cache_pickle :: "(string \<rightharpoonup> history option) option"
  fetched :: "string list"
  written :: "string list"

text \<open>The \<open>try\<close> around \<open>pickle.load\<close>: the stored dict, or the empty one.\<close>

definition load_pickle :: "('k \<rightharpoonup> 'v) option \<Rightarrow> ('k \<rightharpoonup> 'v)" where
  "load_pickle f = (case f of None \<Rightarrow> Map.empty | Some c \<Rightarrow> c)"

definition site :: string where
  "site = ''https://www.transfermarkt.co.uk''"

definition get_page_soup :: "env \<Rightarrow> string \<Rightarrow> sys \<Rightarrow> (error + soup) \<times> sys" where
  "get_page_soup w page_link st = (get_page w page_link, st\<lparr>fetched := fetched st @ [page_link]\<rparr>)"

section \<open>Link resolver\<close>

text \<open>\<open>pattern.search(s)\<close> for a pattern without special characters: \<open>s\<close> contains it.\<close>

fun py_contains :: "string \<Rightarrow> string \<Rightarrow> bool" where
  "py_contains p [] = (p = [])"
| "py_contains p (c # cs) = (take (length p) (c # cs) = p \<or> py_contains p cs)"

text \<open>
  \<open>list(set(xs))\<close> keeps one copy of every element, in the order the surroundings give.
  Whatever \<open>set_order\<close> answers, the result lists the distinct elements of \<open>xs\<close>, each
  once.
\<close>

definition list_of_set :: "env \<Rightarrow> string list \<Rightarrow> string list" where
  "list_of_set w xs =
     (let ys = set_order w (remdups xs) in
      if distinct ys \<and> set ys = set xs then ys else remdups xs)"

definition extract_team_links :: "env \<Rightarrow> string \<Rightarrow> sys \<Rightarrow> (error + string list) \<times> sys" where
  "extract_team_links w year st =
     (case get_page_soup w
        (''https://www.transfermarkt.co.uk/premier-league/startseite/wettbewerb/GB1/plus/?saison_id=''
           @ year) st of
        (Inl e, st1) \<Rightarrow> (Inl e, st1)
      | (Inr soup, st1) \<Rightarrow>
          (let teamLinks = select_hrefs soup ''a.vereinprofil_tooltip'';
               teamLinks = list_of_set w teamLinks;
               teamLinks = filter (py_contains ''startseite'') teamLinks
           in (Inr (map (\<lambda>s. site @ s) teamLinks), st1)))"

text \<open>
  The loop of \<open>extract_team_player_links\<close> over the team links, with the dict built so far.
\<close>

fun team_player_loop ::
  "env \<Rightarrow> string list \<Rightarrow> (string \<times> string list) list \<Rightarrow> sys \<Rightarrow>
     (error + (string \<times> string list) list) \<times> sys" where
  "team_player_loop w [] team_player_links st = (Inr team_player_links, st)"
| "team_player_loop w (team_link # rest) team_player_links st =
     (case py_index (py_split (CHR ''/'') team_link) 3 of
        Inl e \<Rightarrow> (Inl e, st)
      | Inr team \<Rightarrow>
          (case get_page_soup w team_link st of
             (Inl e, st1) \<Rightarrow> (Inl e, st1)
           | (Inr soup, st1) \<Rightarrow>
               (let playerLinks = list_of_set w (select_hrefs soup ''a.spielprofil_tooltip'')
                in team_player_loop w rest
                     (AList.update team playerLinks team_player_links) st1)))"

definition extract_team_player_links ::
  "env \<Rightarrow> string list \<Rightarrow> sys \<Rightarrow> (error + (string \<times> string list) list) \<times> sys" where
  "extract_team_player_links w year_team_links st = team_player_loop w year_team_links [] st"

text \<open>
  \<open>load_scrape_year_links\<close>. \<open>links_cache[year]\<close> is created empty when the year is new,
  each resolved part is stored under its key, and the file is written once at the end when
  anything was resolved. An exception of a resolver leaves before the write.
\<close>

definition load_scrape_year_links ::
  "env \<Rightarrow> string \<Rightarrow> sys \<Rightarrow>
     (error + (string list \<times> (string \<times> string list) list)) \<times> sys" where
  "load_scrape_year_links w year st =
     (let links_cache = load_pickle (links_cache_pickle st);
          cached_team_links = (case links_cache year of None \<Rightarrow> None
                               | Some entry \<Rightarrow> entry_year_team_links entry);
          cached_player_links = (case links_cache year of None \<Rightarrow> None
                                 | Some entry \<Rightarrow> entry_team_player_links entry)
      in
      case (case cached_team_links of
              Some ytl \<Rightarrow> (Inr (ytl, links_cache, False), st)
            | None \<Rightarrow>
                (case extract_team_links w year st of
                   (Inl e, st1) \<Rightarrow> (Inl e, st1)
                 | (Inr ytl, st1) \<Rightarrow>
                     (let entry = (case links_cache year of
                                     None \<Rightarrow> \<lparr>entry_year_team_links = None, entry_team_player_links = None\<rparr>
                                   | Some entry \<Rightarrow> entry)
                      in (Inr (ytl, links_cache(year \<mapsto> entry\<lparr>entry_year_team_links := Some ytl\<rparr>), True),
                          st1)))) of
        (Inl e, st1) \<Rightarrow> (Inl e, st1)
      | (Inr (ytl, links_cache1, updated1), st1) \<Rightarrow>
          (case (case cached_player_links of
                   Some tpl \<Rightarrow> (Inr (tpl, links_cache1, updated1), st1)
                 | None \<Rightarrow>
                     (case extract_team_player_links w ytl st1 of
                        (Inl e, st2) \<Rightarrow> (Inl e, st2)
                      | (Inr tpl, st2) \<Rightarrow>
                          (let entry = (case links_cache1 year of
                                          None \<Rightarrow> \<lparr>entry_year_team_links = None, entry_team_player_links = None\<rparr>
                                        | Some entry \<Rightarrow> entry)
                           in (Inr (tpl,
                                    links_cache1(year \<mapsto> entry\<lparr>entry_team_player_links := Some tpl\<rparr>),
                                    True),
                               st2)))) of
             (Inl e, st2) \<Rightarrow> (Inl e, st2)
           | (Inr (tpl, links_cache2, updated2), st2) \<Rightarrow>
               (if updated2
                then (Inr (ytl, tpl),
                      st2\<lparr>links_cache_pickle := Some links_cache2,
                          written := written st2 @ [''links_cache.pickle'']\<rparr>)
                else (Inr (ytl, tpl), st2))))"

section \<open>Attribute extractor\<close>

text \<open>Decimal digits of a number, and the same padded with zeros to a width.\<close>

definition digit_char :: "nat \<Rightarrow> char" where
  "digit_char d = ''0123456789'' ! d"

fun string_of_nat :: "nat \<Rightarrow> string" where
  "string_of_nat n =
     (if n < 10 then [digit_char n]
      else string_of_nat (n div 10) @ [digit_char (n mod 10)])"

declare string_of_nat.simps [simp del]

text \<open>
  A character that is a decimal digit and nothing \<open>int\<close> treats specially: no white space,
  no sign, no underscore.
\<close>

definition plain_digit :: "char \<Rightarrow> bool" where
  "plain_digit c =
     (is_digit c \<and> \<not> int_isspace c \<and> c \<noteq> CHR ''_'' \<and> c \<noteq> CHR ''-'' \<and> c \<noteq> CHR ''+'')"

definition zero_pad :: "nat \<Rightarrow> nat \<Rightarrow> string" where
  "zero_pad width n =
     replicate (width - length (string_of_nat n)) (CHR ''0'') @ string_of_nat n"

text \<open>
  \<open>d.strftime('%d/%m/%Y')\<close>: day and month in two digits, the year as the C library
  writes it.
\<close>

definition strftime_dmY :: "env \<Rightarrow> datetime \<Rightarrow> string" where
  "strftime_dmY w d =
     zero_pad 2 (dt_day d) @ ''/'' @ zero_pad 2 (dt_month d) @ ''/'' @ strftime_Y w (dt_year d)"

text \<open>
  The two \<open>try\<close> blocks around the date of birth: the plain format, then the one with the
  greeting, and \<open>None\<close> when both end in a ValueError.
\<close>

definition parse_dob :: "env \<Rightarrow> string \<Rightarrow> error + datetime option" where
  "parse_dob w text =
     (case strptime_b w ''%b %d, %Y'' text of
        Inr dob \<Rightarrow> Inr (Some dob)
      | Inl e \<Rightarrow>
          if e \<noteq> ValueError then Inl e
          else (case strptime_b w ''%b %d, %Y Happy Birthday'' text of
                  Inr dob \<Rightarrow> Inr (Some dob)
                | Inl e' \<Rightarrow> if e' \<noteq> ValueError then Inl e' else Inr None))"

definition opt_str :: "string option \<Rightarrow> pyval" where
  "opt_str v = (case v of None \<Rightarrow> PyNone | Some s \<Rightarrow> PyStr s)"

text \<open>
  \<open>clean_extract_player_data\<close>. The height loses its characters outside ASCII
  (\<open>encode('ascii', 'ignore')\<close>), then its last character, then its commas.
\<close>

definition clean_extract_player_data ::
  "env \<Rightarrow> string \<Rightarrow> (string \<times> string) list \<Rightarrow> error + player_data" where
  "clean_extract_player_data w player_link player_data =
     (case py_index (py_split (CHR ''/'') player_link) 3 of
        Inl e \<Rightarrow> Inl e
      | Inr part \<Rightarrow>
          (let player_name = py_join '' '' (py_split (CHR ''-'') part) in
           case (case map_of player_data ''Date of birth'' of
                   None \<Rightarrow> Inr None
                 | Some text \<Rightarrow> parse_dob w text) of
             Inl e \<Rightarrow> Inl e
           | Inr dob \<Rightarrow>
               (let dob = map_option (strftime_dmY w) dob;
                    height = map_option
                      (\<lambda>h. filter (\<lambda>c. c \<noteq> CHR '','')
                             (butlast (filter (\<lambda>c. (of_char c :: nat) < 128) h)))
                      (map_of player_data ''Height'');
                    foot = map_of player_data ''Foot'';
                    citizenship = map_of player_data ''Citizenship'';
                    position = map_of player_data ''Position''
                in Inr [(''player_name'', PyStr player_name),
                        (''dob'', opt_str dob),
                        (''height'', opt_str height),
                        (''foot'', opt_str foot),
                        (''citizenship'', opt_str citizenship),
                        (''position'', opt_str position)])))"

text \<open>
  The loop of \<open>scrape_player_data\<close> over the rows of the table: \<open>row\<close> is the header
  texts followed by the data texts, \<open>row[1]\<close> is read first and \<open>row[0]\<close> after it.
\<close>

fun table_loop ::
  "(string list \<times> string list) list \<Rightarrow> (string \<times> string) list \<Rightarrow> error + (string \<times> string) list" where
  "table_loop [] player_data = Inr player_data"
| "table_loop ((th, td) # rest) player_data =
     (let row = th @ td in
      case py_index row 1 of
        Inl e \<Rightarrow> Inl e
      | Inr data \<Rightarrow>
          (case py_index row 0 of
             Inl e \<Rightarrow> Inl e
           | Inr header \<Rightarrow>
               table_loop rest
                 (AList.update (py_strip (butlast header)) (py_strip data) player_data)))"

definition scrape_player_data :: "env \<Rightarrow> string \<Rightarrow> sys \<Rightarrow> (error + player_data) \<times> sys" where
  "scrape_player_data w team_year_player_link st =
     (let player_link = site @ team_year_player_link in
      case get_page_soup w player_link st of
        (Inl e, st1) \<Rightarrow> (Inl e, st1)
      | (Inr soup, st1) \<Rightarrow>
          (case auflistung_rows soup of
             None \<Rightarrow> (Inl AttributeError, st1)
           | Some table_rows \<Rightarrow>
               (case table_loop table_rows [] of
                  Inl e \<Rightarrow> (Inl e, st1)
                | Inr player_data \<Rightarrow>
                    (clean_extract_player_data w player_link player_data, st1))))"

text \<open>
  \<open>load_scrape_player_data\<close>: the cached record, or the scraped one, stored and written at
  once. Only a \<open>RequestException\<close> is caught; it gives \<open>None\<close> and skips the write.
\<close>

definition load_scrape_player_data ::
  "env \<Rightarrow> string \<Rightarrow> sys \<Rightarrow> (error + player_data option) \<times> sys" where
  "load_scrape_player_data w team_year_player_link st =
     (let extracted_player_data_cache = load_pickle (extracted_player_data_pickle st) in
      case extracted_player_data_cache team_year_player_link of
        Some player_data \<Rightarrow> (Inr (Some player_data), st)
      | None \<Rightarrow>
          (case scrape_player_data w team_year_player_link st of
             (Inr player_data, st1) \<Rightarrow>
               (Inr (Some player_data),
                st1\<lparr>extracted_player_data_pickle :=
                       Some (extracted_player_data_cache(team_year_player_link \<mapsto> player_data)),
                    written := written st1 @ [''extracted_player_data.pickle'']\<rparr>)
           | (Inl e, st1) \<Rightarrow>
               (if e = RequestException then (Inr None, st1) else (Inl e, st1))))"

section \<open>Valuation history extractor\<close>

text \<open>
  \<open>re.search("'series':\[(.*)\]", script)\<close>, group 1. At the first place where the marker
  \<open>'series':[\<close> is followed by a closing bracket on the same line (the dot matches
  everything but the line feed), the group is the text between the marker and the last
  closing bracket of that line.
\<close>

definition series_marker :: string where
  "series_marker = [CHR 0x27] @ ''series'' @ [CHR 0x27] @ '':[''"

definition match_series_here :: "string \<Rightarrow> string option" where
  "match_series_here s =
     (if take (length series_marker) s = series_marker
      then (let line = takeWhile (\<lambda>c. c \<noteq> CHR 0x0A) (drop (length series_marker) s) in
            if CHR '']'' \<in> set line
            then Some (rev (tl (dropWhile (\<lambda>c. c \<noteq> CHR '']'') (rev line))))
            else None)
      else None)"

fun re_search_series :: "string \<Rightarrow> string option" where
  "re_search_series [] = match_series_here []"
| "re_search_series (c # cs) =
     (case match_series_here (c # cs) of
        Some found \<Rightarrow> Some found
      | None \<Rightarrow> re_search_series cs)"

text \<open>
  The loop over the script blocks, given in the order the loop visits them: the first block
  that matches ends it.
\<close>

fun scan_scripts :: "string list \<Rightarrow> string option" where
  "scan_scripts [] = None"
| "scan_scripts (script # rest) =
     (case re_search_series script of
        Some found \<Rightarrow> Some found
      | None \<Rightarrow> scan_scripts rest)"

text \<open>The loop over \<open>raw_data['data']\<close>, appending one tuple for each row.\<close>

fun value_rows_loop :: "env \<Rightarrow> value_row list \<Rightarrow> history \<Rightarrow> error + history" where
  "value_rows_loop w [] transfer_value_rows = Inr transfer_value_rows"
| "value_rows_loop w (row # rest) transfer_value_rows =
     (case strptime_b w ''%b %d, %Y'' (row_datum_mw row) of
        Inl e \<Rightarrow> Inl e
      | Inr d \<Rightarrow> value_rows_loop w rest (transfer_value_rows @ [(row_y row, d)]))"

text \<open>
  \<open>transfer_value_rows.sort(key=lambda x: x[1])\<close>: Python's sort is stable, as is the
  insertion sort \<open>sort_key\<close>.
\<close>

definition sort_by_datetime :: "history \<Rightarrow> history" where
  "sort_by_datetime transfer_value_rows = sort_key (\<lambda>x. snd x) transfer_value_rows"

text \<open>
  \<open>scrape_player_market_value_history\<close>. The index \<open>-1 * (script_iter + 1)\<close> walks the
  script blocks from the last to the first.
\<close>

definition scrape_player_market_value_history ::
  "env \<Rightarrow> string \<Rightarrow> sys \<Rightarrow> (error + history option) \<times> sys" where
  "scrape_player_market_value_history w profile_link st =
     (let value_link = py_replace ''profil'' ''marktwertverlauf'' profile_link;
          value_link = site @ value_link
      in
      case get_page_soup w value_link st of
        (Inl e, st1) \<Rightarrow> (Inl e, st1)
      | (Inr soup, st1) \<Rightarrow>
          (case scan_scripts (rev (script_blocks soup)) of
             None \<Rightarrow> (Inr None, st1)
           | Some found \<Rightarrow>
               (case eval_series w (py_replace [CHR 0x27] [CHR 0x22] found) of
                  Inl e \<Rightarrow> (Inl e, st1)
                | Inr raw_data \<Rightarrow>
                    (case value_rows_loop w (series_data raw_data) [] of
                       Inl e \<Rightarrow> (Inl e, st1)
                     | Inr transfer_value_rows \<Rightarrow>
                         (Inr (Some (sort_by_datetime transfer_value_rows)), st1)))))"

section \<open>Valuation cache\<close>

text \<open>What an f-string writes for a value.\<close>

definition py_format :: "pyval \<Rightarrow> string" where
  "py_format v =
     (case v of
        PyNone \<Rightarrow> ''None''
      | PyStr s \<Rightarrow> s
      | PyInt i \<Rightarrow> (if i < 0 then ''-'' @ string_of_nat (nat (- i)) else string_of_nat (nat i)))"

text \<open>
  \<open>get_player_market_value_history\<close>. A key that is missing and a key that holds \<open>None\<close>
  both lead to the scrape, whose result, \<open>None\<close> included, is stored and written.
\<close>

definition get_player_market_value_history ::
  "env \<Rightarrow> pyval \<Rightarrow> pyval \<Rightarrow> string \<Rightarrow> sys \<Rightarrow> (error + history option) \<times> sys" where
  "get_player_market_value_history w player_name position player_link st =
     (let player_transfer_value_cache = load_pickle (player_transfer_value_cache_pickle st);
          key = py_format player_name @ '' '' @ py_format position
      in
      if player_transfer_value_cache key = None \<or> player_transfer_value_cache key = Some None
      then
        (case scrape_player_market_value_history w player_link st of
           (Inl e, st1) \<Rightarrow> (Inl e, st1)
         | (Inr transfer_value_history, st1) \<Rightarrow>
             (Inr transfer_value_history,
              st1\<lparr>player_transfer_value_cache_pickle :=
                     Some (player_transfer_value_cache(key \<mapsto> transfer_value_history)),
                  written := written st1 @ [''player_transfer_value_cache.pickle'']\<rparr>))
      else
        (case player_transfer_value_cache key of
           Some transfer_value_history \<Rightarrow> (Inr transfer_value_history, st)
         | None \<Rightarrow> (Inl KeyError, st)))"

section \<open>Aggregator\<close>

text \<open>
  \<open>add_player_market_value_for_year\<close>. The date is a \<open>datetime\<close> whenever it is not
  \<open>None\<close>, so the record receives it in the form \<open>strftime('%d/%m/%Y')\<close> gives it.
\<close>

definition add_player_market_value_for_year ::
  "env \<Rightarrow> string \<Rightarrow> string \<Rightarrow> player_data \<Rightarrow> sys \<Rightarrow> (error + player_data) \<times> sys" where
  "add_player_market_value_for_year w year player_link player_data st =
     (case py_get player_data ''player_name'' of
        Inl e \<Rightarrow> (Inl e, st)
      | Inr player_name \<Rightarrow>
          (case py_get player_data ''position'' of
             Inl e \<Rightarrow> (Inl e, st)
           | Inr position \<Rightarrow>
               (case get_player_market_value_history w player_name position player_link st of
                  (Inl e, st1) \<Rightarrow> (Inl e, st1)
                | (Inr transfer_value_history, st1) \<Rightarrow>
                    (case get_season_player_market_value year transfer_value_history of
                       Inl e \<Rightarrow> (Inl e, st1)
                     | Inr (transfer_value, transfer_value_date) \<Rightarrow>
                         (Inr (AList.update ''transfer_value_date''
                                 (opt_str (map_option (strftime_dmY w) transfer_value_date))
                                 (AList.update ''transfer_value''
                                    (case transfer_value of None \<Rightarrow> PyNone | Some v \<Rightarrow> PyInt v)
                                    player_data)),
                          st1)))))"

text \<open>The list \<open>row\<close> of \<open>main\<close>, its elements evaluated from left to right.\<close>

definition snapshot_row ::
  "string \<Rightarrow> string \<Rightarrow> string \<Rightarrow> player_data \<Rightarrow> error + pyval list" where
  "snapshot_row year team player_link d =
     (case py_get d ''player_name'' of Inl e \<Rightarrow> Inl e | Inr player_name \<Rightarrow>
      case py_get d ''transfer_value'' of Inl e \<Rightarrow> Inl e | Inr transfer_value \<Rightarrow>
      case py_get d ''transfer_value_date'' of Inl e \<Rightarrow> Inl e | Inr transfer_value_date \<Rightarrow>
      case calculate_player_age year d of Inl e \<Rightarrow> Inl e | Inr age \<Rightarrow>
      case py_get d ''dob'' of Inl e \<Rightarrow> Inl e | Inr dob \<Rightarrow>
      case py_get d ''height'' of Inl e \<Rightarrow> Inl e | Inr height \<Rightarrow>
      case py_get d ''foot'' of Inl e \<Rightarrow> Inl e | Inr foot \<Rightarrow>
      case py_get d ''citizenship'' of Inl e \<Rightarrow> Inl e | Inr citizenship \<Rightarrow>
      case py_get d ''position'' of Inl e \<Rightarrow> Inl e | Inr position \<Rightarrow>
        Inr [PyStr year, player_name, PyStr team, transfer_value, transfer_value_date,
             (case age of None \<Rightarrow> PyNone | Some a \<Rightarrow> PyInt a),
             dob, height, foot, citizenship, position, PyStr player_link])"

text \<open>
  The innermost loop of \<open>main\<close>, over the player links of one team. \<open>if
  extracted_player_data:\<close> is false for \<open>None\<close> and for an empty dict.
\<close>

fun player_loop ::
  "env \<Rightarrow> string \<Rightarrow> string \<Rightarrow> string list \<Rightarrow> pyval list list \<Rightarrow> sys \<Rightarrow>
     (error + pyval list list) \<times> sys" where
  "player_loop w year team [] row_data st = (Inr row_data, st)"
| "player_loop w year team (player_link # rest) row_data st =
     (case load_scrape_player_data w player_link st of
        (Inl e, st1) \<Rightarrow> (Inl e, st1)
      | (Inr None, st1) \<Rightarrow> player_loop w year team rest row_data st1
      | (Inr (Some extracted_player_data), st1) \<Rightarrow>
          (if extracted_player_data = [] then player_loop w year team rest row_data st1
           else
             (case add_player_market_value_for_year w year player_link extracted_player_data st1 of
                (Inl e, st2) \<Rightarrow> (Inl e, st2)
              | (Inr extracted_player_data, st2) \<Rightarrow>
                  (case snapshot_row year team player_link extracted_player_data of
                     Inl e \<Rightarrow> (Inl e, st2)
                   | Inr row \<Rightarrow> player_loop w year team rest (row_data @ [row]) st2))))"

fun team_loop ::
  "env \<Rightarrow> string \<Rightarrow> (string \<times> string list) list \<Rightarrow> pyval list list \<Rightarrow> sys \<Rightarrow>
     (error + pyval list list) \<times> sys" where
  "team_loop w year [] row_data st = (Inr row_data, st)"
| "team_loop w year ((team, player_links) # rest) row_data st =
     (case player_loop w year team player_links row_data st of
        (Inl e, st1) \<Rightarrow> (Inl e, st1)
      | (Inr row_data1, st1) \<Rightarrow> team_loop w year rest row_data1 st1)"

fun year_loop ::
  "env \<Rightarrow> string list \<Rightarrow> pyval list list \<Rightarrow> sys \<Rightarrow> (error + pyval list list) \<times> sys" where
  "year_loop w [] row_data st = (Inr row_data, st)"
| "year_loop w (year # rest) row_data st =
     (case load_scrape_year_links w year st of
        (Inl e, st1) \<Rightarrow> (Inl e, st1)
      | (Inr (year_team_links, team_player_links), st1) \<Rightarrow>
          (case team_loop w year team_player_links row_data st1 of
             (Inl e, st2) \<Rightarrow> (Inl e, st2)
           | (Inr row_data1, st2) \<Rightarrow> year_loop w rest row_data1 st2))"

definition years :: "string list" where
  "years = [''2011'', ''2012'', ''2013'', ''2014'', ''2015'', ''2016'', ''2017'', ''2018'',
            ''2019'', ''2020'']"

definition header_row :: "pyval list" where
  "header_row = map PyStr [''Year'', ''Player Name'', ''Club'', ''Transfer Value'',
     ''Transfer Date'', ''Age'', ''DOB'', ''Height (cm)'', ''Foot'', ''Citizenship'',
     ''Position'', ''Player Link'']"

text \<open>\<open>main\<close>: the rows handed to the CSV writer, and the state it leaves.\<close>

definition main :: "env \<Rightarrow> sys \<Rightarrow> (error + pyval list list) \<times> sys" where
  "main w st =
     (case year_loop w years [header_row] st of
        (Inl e, st1) \<Rightarrow> (Inl e, st1)
      | (Inr row_data, st1) \<Rightarrow>
          (Inr row_data,
           st1\<lparr>written := written st1 @ [''extracted_transfer_data_2011_to_2020.csv'']\<rparr>))"

section \<open>Example pages and states\<close>

text \<open>
  A page without anchors, table or scripts, and surroundings in which every request gets
  that page; two states of the valuation cache, one holding \<open>None\<close> for a key and one
  holding a history.
\<close>

definition blank_soup :: soup where
  "blank_soup = \<lparr>select_hrefs = (\<lambda>selector. []), auflistung_rows = None, script_blocks = []\<rparr>"

definition blank_env :: env where
  "blank_env = \<lparr>get_page = (\<lambda>page_link. Inr blank_soup),
                 eval_series = (\<lambda>text. Inl EvalError),
                 strptime_b = (\<lambda>format text. Inl ValueError),
                 strftime_Y = string_of_nat,
                 set_order = (\<lambda>xs. xs)\<rparr>"

definition absent_cached :: sys where
  "absent_cached = \<lparr>links_cache_pickle = None, extracted_player_data_pickle = None,
     player_transfer_value_cache_pickle = Some [''a b Centre-Forward'' \<mapsto> None],
     fetched = [], written = []\<rparr>"

definition history_cached :: sys where
  "history_cached = \<lparr>links_cache_pickle = None, extracted_player_data_pickle = None,
     player_transfer_value_cache_pickle =
       Some [''a b Centre-Forward'' \<mapsto> Some [(100, (2020, 1, 15, 0, 0))]],
     fetched = [], written = []\<rparr>"

text \<open>
  A squad page with three anchors, two of them alike; a valuation page with three script
  blocks, of which the first two carry the marker; surroundings that serve these two pages
  and fail every other request; a state whose link cache knows the teams of 2020 only.
\<close>

definition squad_soup :: soup where
  "squad_soup = \<lparr>select_hrefs = (\<lambda>selector.
       if selector = ''a.spielprofil_tooltip''
       then [''/a-b/profil/spieler/1'', ''/c-d/profil/spieler/2'', ''/a-b/profil/spieler/1'']
       else []),
     auflistung_rows = None, script_blocks = []\<rparr>"

definition old_script :: string where
  "old_script = ''var old = {'' @ series_marker @ ''{old}]};''"

definition chart_script :: string where
  "chart_script = ''var chart = {'' @ series_marker @ ''{rows}]};''"

definition footer_script :: string where
  "footer_script = ''var footer = [1];''"

definition value_soup :: soup where
  "value_soup = \<lparr>select_hrefs = (\<lambda>selector. []), auflistung_rows = None,
     script_blocks = [old_script, chart_script, footer_script]\<rparr>"

definition demo_rows :: "value_row list" where
  "demo_rows =
     [\<lparr>row_y = 5400000, row_verein = ''Watford FC'', row_age = 24, row_mw = ''5.40m'',
       row_datum_mw = ''Dec 10, 2019'', row_x = 1575932400000, row_marker = ''url(1010.png)''\<rparr>,
      \<lparr>row_y = 900000, row_verein = ''FC A'', row_age = 22, row_mw = ''900k'',
       row_datum_mw = ''Jun 5, 2018'', row_x = 1528149600000, row_marker = ''url(1.png)''\<rparr>]"

definition demo_env :: env where
  "demo_env = \<lparr>
     get_page = (\<lambda>page_link.
       if page_link = ''https://www.transfermarkt.co.uk/fc-a/startseite/verein/1''
       then Inr squad_soup
       else if page_link = ''https://www.transfermarkt.co.uk/a-b/marktwertverlauf/spieler/1''
       then Inr value_soup
       else Inl RequestException),
     eval_series = (\<lambda>text.
       if text = ''{rows}'' then Inr \<lparr>series_data = demo_rows\<rparr> else Inl EvalError),
     strptime_b = (\<lambda>format text.
       if format = ''%b %d, %Y'' \<and> text = ''Dec 10, 2019'' then Inr (2019, 12, 10, 0, 0)
       else if format = ''%b %d, %Y'' \<and> text = ''Jun 5, 2018'' then Inr (2018, 6, 5, 0, 0)
       else Inl ValueError),
     strftime_Y = string_of_nat,
     set_order = (\<lambda>xs. xs)\<rparr>"

definition units_cached :: sys where
  "units_cached = \<lparr>
     links_cache_pickle = Some [''2020'' \<mapsto>
       \<lparr>entry_year_team_links = Some [''https://www.transfermarkt.co.uk/fc-a/startseite/verein/1''],
        entry_team_player_links = None\<rparr>],
     extracted_player_data_pickle = None,
     player_transfer_value_cache_pickle = None,
     fetched = [], written = []\<rparr>"



section \<open>Properties of the season alignment\<close>

subsection \<open>Years written in decimal digits\<close>

text \<open>
  \<open>int\<close> reads the decimal digits of a number back as that number, so the season start of
  the year written \<open>string_of_nat y\<close> is October 1st of the year \<open>y\<close>, for every year a
  \<open>datetime\<close> can hold.
\<close>

lemma digit_cases:
  "d < 10 \<Longrightarrow> d = 0 \<or> d = 1 \<or> d = 2 \<or> d = 3 \<or> d = 4 \<or> d = 5 \<or> d = 6 \<or> d = 7 \<or> d = 8 \<or> d = (9::nat)"
  by arith

lemma digit_char_props:
  assumes "d < 10"
  shows "plain_digit (digit_char d)" "digit_val (digit_char d) = d"
  using digit_cases [OF assms]
  by (auto simp: plain_digit_def digit_char_def is_digit_def char_between_def digit_val_def
      int_isspace_def)

lemma digits_val_snoc: "digits_val (s @ [c]) = 10 * digits_val s + digit_val c"
  by (simp add: digits_val_def)

lemma string_of_nat_digits:
  "string_of_nat n \<noteq> [] \<and> list_all plain_digit (string_of_nat n) \<and>
   digits_val (string_of_nat n) = n"
proof (induction n rule: string_of_nat.induct)
  case (1 n)
  show ?case
  proof (cases "n < 10")
    case True
    then show ?thesis
      using digit_char_props [of n]
      by (subst (1 2 3) string_of_nat.simps) (simp add: digits_val_def)
  next
    case False
    then have "n mod 10 < 10" by simp
    with False "1.IH" show ?thesis
      using digit_char_props [of "n mod 10"]
      by (subst (1 2 3) string_of_nat.simps) (simp add: digits_val_snoc)
  qed
qed

lemma dropWhile_hd: "s \<noteq> [] \<Longrightarrow> \<not> P (hd s) \<Longrightarrow> dropWhile P s = s"
  by (cases s) simp_all

lemma int_strip_plain:
  assumes "s \<noteq> []" and "list_all plain_digit s"
  shows "int_strip s = s"
proof -
  from assms have "\<not> int_isspace (hd s)" "\<not> int_isspace (hd (rev s))"
    by (auto simp: plain_digit_def list_all_iff hd_rev)
  with assms(1) have "dropWhile int_isspace s = s" "dropWhile int_isspace (rev s) = rev s"
    by (simp_all add: dropWhile_hd)
  then show ?thesis by (simp add: int_strip_def)
qed

lemma py_split_absent:
  "sep \<notin> set s \<Longrightarrow> py_split sep s = [s]"
  by (induction s) auto

lemma py_int_string_of_nat: "py_int (string_of_nat n) = Inr (int n)"
proof -
  let ?s = "string_of_nat n"
  have d: "?s \<noteq> []" "list_all plain_digit ?s" "digits_val ?s = n"
    using string_of_nat_digits [of n] by simp_all
  then obtain c cs where c: "?s = c # cs" by (cases ?s) auto
  with d have h: "c \<noteq> CHR ''-''" "c \<noteq> CHR ''+''"
    by (auto simp: plain_digit_def)
  from d have "CHR ''_'' \<notin> set ?s"
    by (auto simp: list_all_iff plain_digit_def)
  then have sp: "py_split (CHR ''_'') ?s = [?s]" by (rule py_split_absent)
  from d have dg: "list_all is_digit ?s"
    by (auto simp: list_all_iff plain_digit_def)
  have "int_digits ?s = Inr (int n)"
    using sp d dg by (simp add: int_digits_def)
  moreover have "int_strip ?s = ?s" using d by (intro int_strip_plain)
  ultimately show ?thesis
    using c h by (simp add: py_int_def)
qed

lemma season_start_string_of_nat:
  "1 \<le> y \<Longrightarrow> y \<le> 9999 \<Longrightarrow> season_start (string_of_nat y) = Inr (y, 10, 1, 0, 0)"
  by (simp add: season_start_def py_int_string_of_nat mk_datetime_def c_int_def
      days_in_month_def)


lemma season_start_py_int:
  "1 \<le> y \<Longrightarrow> y \<le> 9999 \<Longrightarrow> py_int year = Inr (int y) \<Longrightarrow>
   season_start year = Inr (y, 10, 1, 0, 0)"
  by (simp add: season_start_def mk_datetime_def c_int_def days_in_month_def)

lemma int_rejects_separator: "py_int (CHR 0x1F # ''2020'') = Inl ValueError"
  by code_simp

subsection \<open>The loop and its result\<close>

lemma season_loop_candidate:
  "season_loop ssd h (Some v, Some vd) =
     (case takeWhile (\<lambda>r. snd r \<le> ssd) h of
        [] \<Rightarrow> (Some v, Some vd)
      | r # rs \<Rightarrow> (Some (fst (last (r # rs))), Some (snd (last (r # rs)))))"
proof (induction h arbitrary: v vd)
  case Nil
  show ?case by simp
next
  case (Cons r h)
  obtain a b where r: "r = (a, b)" by (cases r)
  show ?case
  proof (cases "b \<le> ssd")
    case True
    then show ?thesis
      using Cons.IH [of a b] by (simp add: r split: list.splits)
  next
    case False
    then show ?thesis by (simp add: r)
  qed
qed

lemma sorted_filter_takeWhile:
  "sorted (map snd h) \<Longrightarrow>
     filter (\<lambda>r. snd r \<le> (ssd::datetime)) h = takeWhile (\<lambda>r. snd r \<le> ssd) h"
proof (induction h)
  case Nil
  show ?case by simp
next
  case (Cons r h)
  show ?case
  proof (cases "snd r \<le> ssd")
    case True
    with Cons show ?thesis by simp
  next
    case False
    have "\<forall>x \<in> set h. \<not> snd x \<le> ssd"
    proof
      fix x assume "x \<in> set h"
      with Cons.prems have "snd r \<le> snd x" by auto
      with False show "\<not> snd x \<le> ssd" by auto
    qed
    then have "filter (\<lambda>r. snd r \<le> ssd) h = []" by (simp add: filter_empty_conv)
    with False show ?thesis by simp
  qed
qed

lemma season_loop_start:
  "h \<noteq> [] \<Longrightarrow>
   season_loop ssd h (None, None) =
     (case takeWhile (\<lambda>r. snd r \<le> ssd) h of
        [] \<Rightarrow> (Some (fst (hd h)), Some (snd (hd h)))
      | r # rs \<Rightarrow> (Some (fst (last (r # rs))), Some (snd (last (r # rs)))))"
proof (cases h)
  case Nil
  assume "h \<noteq> []"
  with Nil show ?thesis by simp
next
  case (Cons r rest)
  obtain a b where r: "r = (a, b)" by (cases r)
  show ?thesis
  proof (cases "b \<le> ssd")
    case True
    then show ?thesis
      by (simp add: Cons r season_loop_candidate split: list.splits)
  next
    case False
    then show ?thesis by (simp add: Cons r)
  qed
qed

lemma get_season_player_market_value_cut_off:
  assumes "h \<noteq> []"
    and "sorted (map snd h)"
    and "season_start year = Inr ssd"
  shows "get_season_player_market_value year (Some h) =
           (let before = filter (\<lambda>r. snd r \<le> ssd) h;
                chosen = (if before = [] then hd h else last before)
            in Inr (Some (fst chosen), Some (snd chosen)))"
  using assms
  by (simp add: get_season_player_market_value_def season_loop_start
      sorted_filter_takeWhile Let_def split: list.splits)

text \<open>
  Claim C1. For a non-empty history in ascending order of timestamp and a year \<open>y\<close> from 1
  to 9999, written in decimal digits or in any other way \<open>int\<close> reads as \<open>y\<close>,
  \<open>get_season_player_market_value\<close> returns the value and date of the last observation
  dated at or before October 1st 00:00 of the year \<open>y\<close>; when no observation is that early
  it returns the first observation of the history, although that one is dated after the
  season start.
\<close>

theorem get_season_player_market_value_as_of:
  assumes "h \<noteq> []"
    and "sorted (map snd h)"
    and "1 \<le> y" and "y \<le> 9999"
  shows "get_season_player_market_value (string_of_nat y) (Some h) =
           (let before = filter (\<lambda>r. snd r \<le> (y, 10, 1, 0, 0)) h;
                chosen = (if before = [] then hd h else last before)
            in Inr (Some (fst chosen), Some (snd chosen))) \<and>
         (\<forall>year. py_int year = Inr (int y) \<longrightarrow>
            get_season_player_market_value year (Some h) =
              (let before = filter (\<lambda>r. snd r \<le> (y, 10, 1, 0, 0)) h;
                   chosen = (if before = [] then hd h else last before)
               in Inr (Some (fst chosen), Some (snd chosen))))"
proof -
  have general: "get_season_player_market_value year (Some h) =
              (let before = filter (\<lambda>r. snd r \<le> (y, 10, 1, 0, 0)) h;
                   chosen = (if before = [] then hd h else last before)
               in Inr (Some (fst chosen), Some (snd chosen)))"
    if "py_int year = Inr (int y)" for year
  proof -
    from that assms(3,4) have "season_start year = Inr (y, 10, 1, 0, 0)"
      by (intro season_start_py_int)
    with assms(1,2) show ?thesis
      by (rule get_season_player_market_value_cut_off)
  qed
  from general [OF py_int_string_of_nat] general show ?thesis
    by blast
qed

theorem get_season_player_market_value_as_of_witness:
  "get_season_player_market_value ''2020''
      (Some [(100, (2020, 1, 15, 0, 0)), (200, (2020, 11, 20, 0, 0))])
     = Inr (Some 100, Some (2020, 1, 15, 0, 0)) \<and>
   get_season_player_market_value ''2020'' (Some [(150, (2021, 12, 5, 0, 0))])
     = Inr (Some 150, Some (2021, 12, 5, 0, 0)) \<and>
   get_season_player_market_value ''2011''
      (Some [(100, (2011, 1, 15, 0, 0)), (200, (2012, 1, 1, 0, 0))])
     = Inr (Some 100, Some (2011, 1, 15, 0, 0)) \<and>
   get_season_player_market_value ''2012''
      (Some [(100, (2011, 1, 15, 0, 0)), (200, (2012, 1, 1, 0, 0))])
     = Inr (Some 200, Some (2012, 1, 1, 0, 0)) \<and>
   get_season_player_market_value '' +2_012 ''
      (Some [(100, (2011, 1, 15, 0, 0)), (200, (2012, 1, 1, 0, 0))])
     = Inr (Some 200, Some (2012, 1, 1, 0, 0))"
proof -
  have n: "string_of_nat 2020 = ''2020''" "string_of_nat 2011 = ''2011''"
    "string_of_nat 2012 = ''2012''"
    by (simp_all add: string_of_nat.simps digit_char_def)
  have p: "py_int '' +2_012 '' = Inr (int 2012)"
    by code_simp
  note a = get_season_player_market_value_as_of
             [of "[(100, (2020, 1, 15, 0, 0)), (200, (2020, 11, 20, 0, 0))]" 2020]
  note b = get_season_player_market_value_as_of [of "[(150, (2021, 12, 5, 0, 0))]" 2020]
  note c = get_season_player_market_value_as_of
             [of "[(100, (2011, 1, 15, 0, 0)), (200, (2012, 1, 1, 0, 0))]" 2011]
  note d = get_season_player_market_value_as_of
             [of "[(100, (2011, 1, 15, 0, 0)), (200, (2012, 1, 1, 0, 0))]" 2012]
  show ?thesis
    using a b c d n p by simp
qed

text \<open>
  An empty history is a value the extractor produces: a matching script whose series has an
  empty \<open>data\<close> list gives \<open>[]\<close>, not \<open>None\<close>.
\<close>

lemma scrape_player_market_value_history_empty_series:
  "get_page w (site @ py_replace ''profil'' ''marktwertverlauf'' l) = Inr soup \<Longrightarrow>
   scan_scripts (rev (script_blocks soup)) = Some found \<Longrightarrow>
   eval_series w (py_replace [CHR 0x27] [CHR 0x22] found) = Inr \<lparr>series_data = []\<rparr> \<Longrightarrow>
   fst (scrape_player_market_value_history w l st) = Inr (Some [])"
  by (simp add: scrape_player_market_value_history_def get_page_soup_def Let_def
      sort_by_datetime_def)

text \<open>
  Claim C3. With no history (\<open>None\<close>) the result is \<open>(None, None)\<close> for every year, but a
  history that is present and empty ends in the IndexError of \<open>transfer_value_history[0]\<close>:
  the loop body never runs, the candidate is still \<open>None\<close>, and the fallback reads the
  first element of the empty list.
\<close>

theorem get_season_player_market_value_empty_history:
  "get_season_player_market_value year None = Inr (None, None) \<and>
   (\<exists>e. get_season_player_market_value year (Some []) = Inl e) \<and>
   get_season_player_market_value ''2020'' (Some []) = Inl IndexError"
proof -
  have "get_season_player_market_value ''2020'' (Some []) = Inl IndexError"
    by code_simp
  moreover have "\<exists>e. get_season_player_market_value year (Some []) = Inl e"
    by (simp add: get_season_player_market_value_def py_index_def split: sum.splits)
  ultimately show ?thesis
    by (simp add: get_season_player_market_value_def)
qed

section \<open>Properties of the age computation\<close>

text \<open>
  Claim C5. A record whose \<open>dob\<close> is a string that \<open>strptime\<close> reads as the date
  \<open>dob\<close>, and a year \<open>y\<close> from 1 to 9999, written in decimal digits or in any other way
  \<open>int\<close> reads as \<open>y\<close>: the age is \<open>y\<close> minus the year of birth, less one exactly when
  the birthday falls after October 1st (a later month, or a later day of October).
\<close>

theorem calculate_player_age_at_season_start:
  assumes "map_of player_data ''dob'' = Some (PyStr s)"
    and "strptime_dmY s = Inr dob"
    and "1 \<le> y" and "y \<le> 9999"
  shows "calculate_player_age (string_of_nat y) player_data =
           Inr (Some (int y - int (dt_year dob) -
                      (if 10 < dt_month dob \<or> (dt_month dob = 10 \<and> 1 < dt_day dob)
                       then 1 else 0))) \<and>
         (\<forall>year. py_int year = Inr (int y) \<longrightarrow>
            calculate_player_age year player_data =
              Inr (Some (int y - int (dt_year dob) -
                         (if 10 < dt_month dob \<or> (dt_month dob = 10 \<and> 1 < dt_day dob)
                          then 1 else 0))))"
proof -
  have general: "calculate_player_age year player_data =
              Inr (Some (int y - int (dt_year dob) -
                         (if 10 < dt_month dob \<or> (dt_month dob = 10 \<and> 1 < dt_day dob)
                          then 1 else 0)))"
    if "py_int year = Inr (int y)" for year
  proof -
    from that assms(3,4) have "season_start year = Inr (y, 10, 1, 0, 0)"
      by (intro season_start_py_int)
    with that assms(1,2) show ?thesis
      by (auto simp: calculate_player_age_def dt_year_def dt_month_def dt_day_def Let_def)
  qed
  from general [OF py_int_string_of_nat] general show ?thesis
    by blast
qed

theorem calculate_player_age_at_season_start_witness:
  "calculate_player_age ''2020'' [(''player_name'', PyStr ''a b''), (''dob'', PyStr ''15/11/1995'')]
     = Inr (Some 24) \<and>
   calculate_player_age ''2020'' [(''player_name'', PyStr ''a b''), (''dob'', PyStr ''01/09/1995'')]
     = Inr (Some 25) \<and>
   calculate_player_age ''2011'' [(''player_name'', PyStr ''a b''), (''dob'', PyStr ''15/11/1995'')]
     = Inr (Some 15) \<and>
   calculate_player_age ''2011'' [(''player_name'', PyStr ''c d''), (''dob'', PyStr ''02/10/2000'')]
     = Inr (Some 10) \<and>
   calculate_player_age ''2011'' [(''player_name'', PyStr ''c d''), (''dob'', PyStr ''01/10/2000'')]
     = Inr (Some 11)"
proof -
  have n: "string_of_nat 2020 = ''2020''" "string_of_nat 2011 = ''2011''"
    by (simp_all add: string_of_nat.simps digit_char_def)
  have d1: "strptime_dmY ''15/11/1995'' = Inr (1995, 11, 15, 0, 0)"
    by code_simp
  have d2: "strptime_dmY ''01/09/1995'' = Inr (1995, 9, 1, 0, 0)"
    by code_simp
  have d3: "strptime_dmY ''02/10/2000'' = Inr (2000, 10, 2, 0, 0)"
    by code_simp
  have d4: "strptime_dmY ''01/10/2000'' = Inr (2000, 10, 1, 0, 0)"
    by code_simp
  note a = calculate_player_age_at_season_start
            [of "[(''player_name'', PyStr ''a b''), (''dob'', PyStr ''15/11/1995'')]"
                "''15/11/1995''" _ 2020, OF _ d1]
  note b = calculate_player_age_at_season_start
            [of "[(''player_name'', PyStr ''a b''), (''dob'', PyStr ''01/09/1995'')]"
                "''01/09/1995''" _ 2020, OF _ d2]
  note c = calculate_player_age_at_season_start
            [of "[(''player_name'', PyStr ''a b''), (''dob'', PyStr ''15/11/1995'')]"
                "''15/11/1995''" _ 2011, OF _ d1]
  note d = calculate_player_age_at_season_start
            [of "[(''player_name'', PyStr ''c d''), (''dob'', PyStr ''02/10/2000'')]"
                "''02/10/2000''" _ 2011, OF _ d3]
  note e = calculate_player_age_at_season_start
            [of "[(''player_name'', PyStr ''c d''), (''dob'', PyStr ''01/10/2000'')]"
                "''01/10/2000''" _ 2011, OF _ d4]
  show ?thesis
    using a b c d e n by (simp add: dt_year_def dt_month_def dt_day_def)
qed

text \<open>
  A record with \<open>None\<close> under \<open>dob\<close> is what \<open>clean_extract_player_data\<close> returns for a
  page without a date of birth, and the age computation fails on it.
\<close>

lemma clean_extract_player_data_missing_dob:
  "map_of raw ''Date of birth'' = None \<Longrightarrow>
   clean_extract_player_data w player_link raw = Inr player_data \<Longrightarrow>
   map_of player_data ''dob'' = Some PyNone \<and>
   calculate_player_age year player_data = Inl TypeError"
  by (auto simp: clean_extract_player_data_def calculate_player_age_def opt_str_def Let_def
      split: sum.splits)

text \<open>
  Claim C9. A record whose \<open>dob\<close> key is present and holds \<open>None\<close>, which is how
  \<open>clean_extract_player_data\<close> stores a missing date of birth: the test
  \<open>'dob' in player_data\<close> succeeds and \<open>strptime\<close> is called on \<open>None\<close>, a TypeError.
  The age is \<open>None\<close> only when the key itself is missing.
\<close>

theorem calculate_player_age_dob_none:
  "calculate_player_age year ((''dob'', PyNone) # rest) = Inl TypeError \<and>
   calculate_player_age year [(''player_name'', PyStr n)] = Inr None"
  by (simp add: calculate_player_age_def)

section \<open>Properties of the valuation history extractor\<close>

lemma demo_search:
  "re_search_series footer_script = None"
  "re_search_series chart_script = Some ''{rows}''"
  "re_search_series old_script = Some ''{old}''"
  by (simp_all add: footer_script_def chart_script_def old_script_def series_marker_def
      match_series_here_def)

lemma demo_history:
  "fst (scrape_player_market_value_history demo_env ''/a-b/profil/spieler/1'' units_cached) =
     Inr (Some [(900000, (2018, 6, 5, 0, 0)), (5400000, (2019, 12, 10, 0, 0))])"
  by (simp add: scrape_player_market_value_history_def get_page_soup_def Let_def
      demo_env_def value_soup_def site_def demo_search sort_by_datetime_def demo_rows_def)

text \<open>
  Claim C4. The sort of the extractor gives a list in ascending order of timestamp for
  every input, with the same rows; rows of equal timestamp keep their order (stability);
  a list already in ascending order comes back unchanged; and every history that
  \<open>scrape_player_market_value_history\<close> returns has gone through this sort, so it is in
  ascending order.
\<close>

theorem sort_by_datetime_ascending_stable:
  "sorted (map snd (sort_by_datetime xs)) \<and>
   mset (sort_by_datetime xs) = mset xs \<and>
   (\<forall>k. filter (\<lambda>x. snd x = k) (sort_by_datetime xs) = filter (\<lambda>x. snd x = k) xs) \<and>
   (sorted (map snd xs) \<longrightarrow> sort_by_datetime xs = xs) \<and>
   (fst (scrape_player_market_value_history w l st) = Inr (Some h) \<longrightarrow> sorted (map snd h))"
proof (intro conjI impI allI)
  show "sorted (map snd (sort_by_datetime xs))"
    by (simp add: sort_by_datetime_def)
  show "mset (sort_by_datetime xs) = mset xs"
    by (simp add: sort_by_datetime_def)
  show "filter (\<lambda>x. snd x = k) (sort_by_datetime xs) = filter (\<lambda>x. snd x = k) xs" for k
    unfolding sort_by_datetime_def by (rule sort_key_stable)
  show "sort_by_datetime xs = xs" if "sorted (map snd xs)"
    unfolding sort_by_datetime_def using that by (rule sort_key_id_if_sorted)
  show "sorted (map snd h)"
    if "fst (scrape_player_market_value_history w l st) = Inr (Some h)"
    using that
    by (auto simp: scrape_player_market_value_history_def get_page_soup_def Let_def
        sort_by_datetime_def split: sum.splits option.splits)
qed

theorem sort_by_datetime_ascending_stable_witness:
  "sorted (map snd [(1::int, (2019, 5, 1, 0, 0)), (2, (2020, 1, 15, 0, 0)),
                    (3, (2020, 1, 15, 0, 0) :: datetime)]) \<and>
   sort_by_datetime [(1, (2019, 5, 1, 0, 0)), (2, (2020, 1, 15, 0, 0)), (3, (2020, 1, 15, 0, 0))]
     = [(1, (2019, 5, 1, 0, 0)), (2, (2020, 1, 15, 0, 0)), (3, (2020, 1, 15, 0, 0))] \<and>
   fst (scrape_player_market_value_history demo_env ''/a-b/profil/spieler/1'' units_cached) =
     Inr (Some [(900000, (2018, 6, 5, 0, 0)), (5400000, (2019, 12, 10, 0, 0))]) \<and>
   sorted (map snd [(900000::int, (2018, 6, 5, 0, 0)), (5400000, (2019, 12, 10, 0, 0) :: datetime)])"
  using sort_by_datetime_ascending_stable
          [of "[(1, (2019, 5, 1, 0, 0)), (2, (2020, 1, 15, 0, 0)), (3, (2020, 1, 15, 0, 0))]"
              demo_env "''/a-b/profil/spieler/1''" units_cached
              "[(900000, (2018, 6, 5, 0, 0)), (5400000, (2019, 12, 10, 0, 0))]"]
        demo_history
  by simp

lemma sort_by_datetime_example:
  "sort_by_datetime [(2, (2020, 1, 15, 0, 0)), (1, (2019, 5, 1, 0, 0)), (3, (2020, 1, 15, 0, 0))]
     = [(1, (2019, 5, 1, 0, 0)), (2, (2020, 1, 15, 0, 0)), (3, (2020, 1, 15, 0, 0))]"
  by (simp add: sort_by_datetime_def)

lemma scan_scripts_none:
  "\<forall>s \<in> set scripts. re_search_series s = None \<Longrightarrow> scan_scripts scripts = None"
  by (induction scripts) simp_all

lemma scan_scripts_first:
  "\<forall>t \<in> set earlier. re_search_series t = None \<Longrightarrow> re_search_series s = Some found \<Longrightarrow>
   scan_scripts (earlier @ s # later) = Some found"
  by (induction earlier) simp_all

lemma value_rows_loop_zip:
  "map (\<lambda>r. strptime_b w ''%b %d, %Y'' (row_datum_mw r)) rows = map Inr ds \<Longrightarrow>
   value_rows_loop w rows acc = Inr (acc @ zip (map row_y rows) ds)"
proof (induction rows arbitrary: ds acc)
  case Nil
  then show ?case by simp
next
  case (Cons r rows)
  then obtain d ds' where ds: "ds = d # ds'" by (cases ds) auto
  with Cons.prems have "strptime_b w ''%b %d, %Y'' (row_datum_mw r) = Inr d"
    and "map (\<lambda>r. strptime_b w ''%b %d, %Y'' (row_datum_mw r)) rows = map Inr ds'"
    by simp_all
  with Cons.IH [of ds' "acc @ [(row_y r, d)]"] show ?case
    by (simp add: ds)
qed

text \<open>
  Claim C7. On the page of a player, the extractor walks the script blocks from the last to
  the first and takes the first one that matches the marker, which is the last matching
  block of the document; when no block matches, the result is \<open>None\<close> and not an error.
  When the text of the matching block evaluates to rows whose dates parse, the result is the
  sorted list of the pairs (value \<open>y\<close>, parsed \<open>datum_mw\<close>), one for each row, and nothing
  else of a row enters it.
\<close>

theorem scrape_player_market_value_history_last_matching_script:
  assumes "get_page w (site @ py_replace ''profil'' ''marktwertverlauf'' profile_link) = Inr soup"
  shows "((\<forall>s \<in> set (script_blocks soup). re_search_series s = None) \<longrightarrow>
            fst (scrape_player_market_value_history w profile_link st) = Inr None) \<and>
         (\<forall>before s after found raw_data ds.
            script_blocks soup = before @ s # after \<and>
            (\<forall>t \<in> set after. re_search_series t = None) \<and>
            re_search_series s = Some found \<and>
            eval_series w (py_replace [CHR 0x27] [CHR 0x22] found) = Inr raw_data \<and>
            map (\<lambda>r. strptime_b w ''%b %d, %Y'' (row_datum_mw r)) (series_data raw_data) = map Inr ds
            \<longrightarrow>
            fst (scrape_player_market_value_history w profile_link st) =
              Inr (Some (sort_by_datetime (zip (map row_y (series_data raw_data)) ds))))"
proof (intro conjI impI allI)
  assume "\<forall>s \<in> set (script_blocks soup). re_search_series s = None"
  then have "scan_scripts (rev (script_blocks soup)) = None"
    by (intro scan_scripts_none) simp
  with assms show "fst (scrape_player_market_value_history w profile_link st) = Inr None"
    by (simp add: scrape_player_market_value_history_def get_page_soup_def Let_def)
next
  fix before s after found raw_data ds
  assume a: "script_blocks soup = before @ s # after \<and>
            (\<forall>t \<in> set after. re_search_series t = None) \<and>
            re_search_series s = Some found \<and>
            eval_series w (py_replace [CHR 0x27] [CHR 0x22] found) = Inr raw_data \<and>
            map (\<lambda>r. strptime_b w ''%b %d, %Y'' (row_datum_mw r)) (series_data raw_data) = map Inr ds"
  then have "scan_scripts (rev after @ s # rev before) = Some found"
    by (intro scan_scripts_first) simp_all
  then have "scan_scripts (rev (script_blocks soup)) = Some found"
    using a by simp
  moreover have "value_rows_loop w (series_data raw_data) [] =
                   Inr (zip (map row_y (series_data raw_data)) ds)"
    using a value_rows_loop_zip [of w "series_data raw_data" ds "[]"] by simp
  ultimately show "fst (scrape_player_market_value_history w profile_link st) =
              Inr (Some (sort_by_datetime (zip (map row_y (series_data raw_data)) ds)))"
    using assms a
    by (simp add: scrape_player_market_value_history_def get_page_soup_def Let_def)
qed

theorem scrape_player_market_value_history_last_matching_script_witness:
  "get_page demo_env (site @ py_replace ''profil'' ''marktwertverlauf'' ''/a-b/profil/spieler/1'')
     = Inr value_soup \<and>
   fst (scrape_player_market_value_history demo_env ''/a-b/profil/spieler/1'' units_cached) =
     Inr (Some [(900000, (2018, 6, 5, 0, 0)), (5400000, (2019, 12, 10, 0, 0))])"
proof -
  have p: "get_page demo_env (site @ py_replace ''profil'' ''marktwertverlauf'' ''/a-b/profil/spieler/1'')
     = Inr value_soup"
    by (simp add: demo_env_def site_def)
  have b: "script_blocks value_soup = [old_script] @ chart_script # [footer_script]"
    by (simp add: value_soup_def)
  have s: "sort_by_datetime (zip (map row_y (series_data \<lparr>series_data = demo_rows\<rparr>))
             [(2019, 12, 10, 0, 0), (2018, 6, 5, 0, 0)]) =
           [(900000, (2018, 6, 5, 0, 0)), (5400000, (2019, 12, 10, 0, 0))]"
    by (simp add: sort_by_datetime_def demo_rows_def)
  note t = scrape_player_market_value_history_last_matching_script
             [OF p, of units_cached, THEN conjunct2, rule_format,
              of "[old_script]" chart_script "[footer_script]" "''{rows}''" "\<lparr>series_data = demo_rows\<rparr>"
                 "[(2019, 12, 10, 0, 0), (2018, 6, 5, 0, 0)]"]
  have "fst (scrape_player_market_value_history demo_env ''/a-b/profil/spieler/1'' units_cached) =
     Inr (Some (sort_by_datetime (zip (map row_y (series_data \<lparr>series_data = demo_rows\<rparr>))
             [(2019, 12, 10, 0, 0), (2018, 6, 5, 0, 0)])))"
    by (rule t) (simp add: b demo_search demo_env_def demo_rows_def)
  with p s show ?thesis by simp
qed

section \<open>Properties of the valuation cache\<close>

lemma valuation_cache_hit:
  "load_pickle (player_transfer_value_cache_pickle st) (py_format n @ '' '' @ py_format p)
     = Some (Some h) \<Longrightarrow>
   get_player_market_value_history w n p l st = (Inr (Some h), st)"
  by (simp add: get_player_market_value_history_def Let_def)

lemma scrape_history_fetched:
  "fetched (snd (scrape_player_market_value_history w l st)) =
     fetched st @ [site @ py_replace ''profil'' ''marktwertverlauf'' l]"
  by (simp add: scrape_player_market_value_history_def get_page_soup_def Let_def
      split: sum.splits option.splits)

text \<open>
  Claim C2, as the code has it. When the cache holds a history for the key, an empty one
  included, the call returns it and leaves the state as it was: no page is requested and no
  file is written. When the cache holds \<open>None\<close> for the key, the test
  \<open>player_transfer_value_cache[key] is None\<close> sends the call to the scrape, so the
  valuation page is requested again.
\<close>

theorem get_player_market_value_history_cached:
  "(load_pickle (player_transfer_value_cache_pickle st) (py_format n @ '' '' @ py_format p)
      = Some (Some h) \<longrightarrow>
      get_player_market_value_history w n p l st = (Inr (Some h), st)) \<and>
   (load_pickle (player_transfer_value_cache_pickle st) (py_format n @ '' '' @ py_format p)
      = Some None \<longrightarrow>
      fetched (snd (get_player_market_value_history w n p l st)) =
        fetched st @ [site @ py_replace ''profil'' ''marktwertverlauf'' l])"
proof (intro conjI impI)
  assume "load_pickle (player_transfer_value_cache_pickle st)
            (py_format n @ '' '' @ py_format p) = Some (Some h)"
  then show "get_player_market_value_history w n p l st = (Inr (Some h), st)"
    by (rule valuation_cache_hit)
next
  assume a: "load_pickle (player_transfer_value_cache_pickle st)
               (py_format n @ '' '' @ py_format p) = Some None"
  obtain r st1 where s: "scrape_player_market_value_history w l st = (r, st1)"
    by (cases "scrape_player_market_value_history w l st")
  have "fetched st1 = fetched st @ [site @ py_replace ''profil'' ''marktwertverlauf'' l]"
    using scrape_history_fetched [of w l st] s by simp
  then show "fetched (snd (get_player_market_value_history w n p l st)) =
        fetched st @ [site @ py_replace ''profil'' ''marktwertverlauf'' l]"
    using a s by (cases r) (simp_all add: get_player_market_value_history_def Let_def)
qed

theorem get_player_market_value_history_cached_witness:
  "get_player_market_value_history blank_env (PyStr ''a b'') (PyStr ''Centre-Forward'')
      ''/a-b/profil/spieler/1'' history_cached
     = (Inr (Some [(100, (2020, 1, 15, 0, 0))]), history_cached) \<and>
   fetched (snd (get_player_market_value_history blank_env (PyStr ''a b'')
      (PyStr ''Centre-Forward'') ''/a-b/profil/spieler/1'' absent_cached))
     = [''https://www.transfermarkt.co.uk/a-b/marktwertverlauf/spieler/1'']"
proof -
  have h: "load_pickle (player_transfer_value_cache_pickle history_cached)
             (py_format (PyStr ''a b'') @ '' '' @ py_format (PyStr ''Centre-Forward''))
           = Some (Some [(100, (2020, 1, 15, 0, 0))])"
    by (simp add: history_cached_def load_pickle_def py_format_def)
  have a: "load_pickle (player_transfer_value_cache_pickle absent_cached)
             (py_format (PyStr ''a b'') @ '' '' @ py_format (PyStr ''Centre-Forward''))
           = Some None"
    by (simp add: absent_cached_def load_pickle_def py_format_def)
  have f: "fetched absent_cached = []"
    by (simp add: absent_cached_def)
  have r: "site @ py_replace ''profil'' ''marktwertverlauf'' ''/a-b/profil/spieler/1''
           = ''https://www.transfermarkt.co.uk/a-b/marktwertverlauf/spieler/1''"
    by (simp add: site_def)
  show ?thesis
    using get_player_market_value_history_cached
            [of history_cached "PyStr ''a b''" "PyStr ''Centre-Forward''"
                "[(100, (2020, 1, 15, 0, 0))]" blank_env "''/a-b/profil/spieler/1''"]
          get_player_market_value_history_cached
            [of absent_cached "PyStr ''a b''" "PyStr ''Centre-Forward''"
                "[]" blank_env "''/a-b/profil/spieler/1''"]
          h a f r
    by simp
qed

text \<open>
  Claim C2, as it is stated, fails where the cache records the absence of a history: the
  key is in the cache with \<open>None\<close>, and the call requests the valuation page and writes the
  cache file.
\<close>

theorem get_player_market_value_history_absent_refetched:
  "player_transfer_value_cache_pickle absent_cached = Some [''a b Centre-Forward'' \<mapsto> None] \<and>
   py_format (PyStr ''a b'') @ '' '' @ py_format (PyStr ''Centre-Forward'')
     = ''a b Centre-Forward'' \<and>
   get_player_market_value_history blank_env (PyStr ''a b'') (PyStr ''Centre-Forward'')
      ''/a-b/profil/spieler/1'' absent_cached
     = (Inr None,
        absent_cached\<lparr>fetched := [''https://www.transfermarkt.co.uk/a-b/marktwertverlauf/spieler/1''],
                      written := [''player_transfer_value_cache.pickle'']\<rparr>)"
  by (simp add: absent_cached_def blank_env_def blank_soup_def py_format_def
      get_player_market_value_history_def load_pickle_def Let_def
      scrape_player_market_value_history_def get_page_soup_def site_def)

text \<open>
  Claim C10. Once the cache holds a history for the key built from a name and a position,
  the call returns that history and leaves the state untouched whatever the profile link:
  two calls that differ in the link only give the same result and request no page.
\<close>

theorem get_player_market_value_history_ignores_link:
  assumes "load_pickle (player_transfer_value_cache_pickle st)
             (py_format n @ '' '' @ py_format p) = Some (Some h)"
  shows "get_player_market_value_history w n p l1 st = (Inr (Some h), st) \<and>
         get_player_market_value_history w n p l2 st = (Inr (Some h), st)"
  using assms by (simp add: valuation_cache_hit)

theorem get_player_market_value_history_ignores_link_witness:
  "''/a-b/profil/spieler/1'' \<noteq> ''/a-b/profil/spieler/777'' \<and>
   get_player_market_value_history demo_env (PyStr ''a b'') (PyStr ''Centre-Forward'')
      ''/a-b/profil/spieler/1'' history_cached
     = (Inr (Some [(100, (2020, 1, 15, 0, 0))]), history_cached) \<and>
   get_player_market_value_history demo_env (PyStr ''a b'') (PyStr ''Centre-Forward'')
      ''/a-b/profil/spieler/777'' history_cached
     = (Inr (Some [(100, (2020, 1, 15, 0, 0))]), history_cached)"
proof -
  have h: "load_pickle (player_transfer_value_cache_pickle history_cached)
             (py_format (PyStr ''a b'') @ '' '' @ py_format (PyStr ''Centre-Forward''))
           = Some (Some [(100, (2020, 1, 15, 0, 0))])"
    by (simp add: history_cached_def load_pickle_def py_format_def)
  show ?thesis
    using get_player_market_value_history_ignores_link
            [OF h, of demo_env "''/a-b/profil/spieler/1''" "''/a-b/profil/spieler/777''"]
    by simp
qed

section \<open>Properties of the link cache\<close>

lemma team_player_loop_fetched:
  "\<exists>n. fetched (snd (team_player_loop w team_links acc st)) = fetched st @ take n team_links"
proof (induction team_links arbitrary: acc st)
  case Nil
  show ?case by simp
next
  case (Cons team_link rest)
  show ?case
  proof (cases "py_index (py_split (CHR ''/'') team_link) 3")
    case (Inl e)
    then have "fetched (snd (team_player_loop w (team_link # rest) acc st)) =
                 fetched st @ take 0 (team_link # rest)"
      by simp
    then show ?thesis by blast
  next
    case (Inr team)
    show ?thesis
    proof (cases "get_page w team_link")
      case (Inl e)
      with Inr have "fetched (snd (team_player_loop w (team_link # rest) acc st)) =
                 fetched st @ take (Suc 0) (team_link # rest)"
        by (simp add: get_page_soup_def)
      then show ?thesis by blast
    next
      case (Inr soup)
      let ?st1 = "st\<lparr>fetched := fetched st @ [team_link]\<rparr>"
      let ?acc1 = "AList.update team (list_of_set w (select_hrefs soup ''a.spielprofil_tooltip'')) acc"
      from Cons.IH [of ?acc1 ?st1] obtain n where
        n: "fetched (snd (team_player_loop w rest ?acc1 ?st1)) = fetched ?st1 @ take n rest"
        by blast
      from Inr \<open>py_index (py_split (CHR ''/'') team_link) 3 = Inr team\<close> n
      have "fetched (snd (team_player_loop w (team_link # rest) acc st)) =
                 fetched st @ take (Suc n) (team_link # rest)"
        by (simp add: get_page_soup_def Let_def)
      then show ?thesis by blast
    qed
  qed
qed

text \<open>
  Claim C6. The link cache has an entry for the year whose team links are stored. When the
  player links are missing, only \<open>extract_team_player_links\<close> runs, on the stored team
  links: the pages requested are team links of the entry, the season page is not among
  them, the team links come back as stored, and the entry is written with the player links
  added and the team links as they were. When the player links are stored too, the call
  returns both and leaves the state as it was: nothing is requested or written.
\<close>

theorem load_scrape_year_links_partial_entry:
  assumes "load_pickle (links_cache_pickle st) year = Some entry"
    and "entry_year_team_links entry = Some ytl"
  shows "(entry_team_player_links entry = None \<longrightarrow>
            (case extract_team_player_links w ytl st of
               (Inl e, st1) \<Rightarrow> load_scrape_year_links w year st = (Inl e, st1)
             | (Inr tpl, st1) \<Rightarrow>
                 load_scrape_year_links w year st =
                   (Inr (ytl, tpl),
                    st1\<lparr>links_cache_pickle :=
                           Some ((load_pickle (links_cache_pickle st))
                                   (year \<mapsto> entry\<lparr>entry_team_player_links := Some tpl\<rparr>)),
                        written := written st1 @ [''links_cache.pickle'']\<rparr>)) \<and>
            (\<exists>n. fetched (snd (load_scrape_year_links w year st)) = fetched st @ take n ytl)) \<and>
         (\<forall>tpl. entry_team_player_links entry = Some tpl \<longrightarrow>
            load_scrape_year_links w year st = (Inr (ytl, tpl), st))"
proof (intro conjI impI allI)
  assume none: "entry_team_player_links entry = None"
  obtain r st1 where x: "extract_team_player_links w ytl st = (r, st1)"
    by (cases "extract_team_player_links w ytl st")
  show c: "case extract_team_player_links w ytl st of
               (Inl e, st1) \<Rightarrow> load_scrape_year_links w year st = (Inl e, st1)
             | (Inr tpl, st1) \<Rightarrow>
                 load_scrape_year_links w year st =
                   (Inr (ytl, tpl),
                    st1\<lparr>links_cache_pickle :=
                           Some ((load_pickle (links_cache_pickle st))
                                   (year \<mapsto> entry\<lparr>entry_team_player_links := Some tpl\<rparr>)),
                        written := written st1 @ [''links_cache.pickle'']\<rparr>)"
    using assms none x by (cases r) (simp_all add: load_scrape_year_links_def Let_def)
  from team_player_loop_fetched [of w ytl "[]" st] obtain n where
    "fetched st1 = fetched st @ take n ytl"
    using x by (auto simp: extract_team_player_links_def)
  then have "fetched (snd (load_scrape_year_links w year st)) = fetched st @ take n ytl"
    using c x by (cases r) simp_all
  then show "\<exists>n. fetched (snd (load_scrape_year_links w year st)) = fetched st @ take n ytl"
    by blast
next
  fix tpl
  assume "entry_team_player_links entry = Some tpl"
  with assms show "load_scrape_year_links w year st = (Inr (ytl, tpl), st)"
    by (simp add: load_scrape_year_links_def Let_def)
qed

lemma demo_team_player_links:
  "extract_team_player_links demo_env
      [''https://www.transfermarkt.co.uk/fc-a/startseite/verein/1''] units_cached
   = (Inr [(''fc-a'', [''/c-d/profil/spieler/2'', ''/a-b/profil/spieler/1''])],
      units_cached\<lparr>fetched := [''https://www.transfermarkt.co.uk/fc-a/startseite/verein/1'']\<rparr>)"
  by (simp add: extract_team_player_links_def demo_env_def units_cached_def squad_soup_def
      get_page_soup_def py_index_def list_of_set_def Let_def)

theorem load_scrape_year_links_partial_entry_witness:
  "load_scrape_year_links demo_env ''2020'' units_cached =
     (Inr ([''https://www.transfermarkt.co.uk/fc-a/startseite/verein/1''],
           [(''fc-a'', [''/c-d/profil/spieler/2'', ''/a-b/profil/spieler/1''])]),
      units_cached\<lparr>
        links_cache_pickle := Some [''2020'' \<mapsto>
          \<lparr>entry_year_team_links = Some [''https://www.transfermarkt.co.uk/fc-a/startseite/verein/1''],
           entry_team_player_links =
             Some [(''fc-a'', [''/c-d/profil/spieler/2'', ''/a-b/profil/spieler/1''])]\<rparr>],
        fetched := [''https://www.transfermarkt.co.uk/fc-a/startseite/verein/1''],
        written := [''links_cache.pickle'']\<rparr>)"
proof -
  have e: "load_pickle (links_cache_pickle units_cached) ''2020'' =
             Some \<lparr>entry_year_team_links =
                     Some [''https://www.transfermarkt.co.uk/fc-a/startseite/verein/1''],
                   entry_team_player_links = None\<rparr>"
    by (simp add: units_cached_def load_pickle_def)
  show ?thesis
    using load_scrape_year_links_partial_entry [OF e, of _ demo_env] demo_team_player_links
    by (simp add: units_cached_def load_pickle_def)
qed

section \<open>Properties of the attribute cache and the aggregator\<close>

lemma load_scrape_player_data_fetch:
  "load_pickle (extracted_player_data_pickle st) link = None \<Longrightarrow>
   fetched (snd (load_scrape_player_data w link st)) = fetched st @ [site @ link]"
  by (simp add: load_scrape_player_data_def scrape_player_data_def get_page_soup_def Let_def
      split: sum.splits option.splits)

text \<open>
  Claim C8. The link of a player is not in the attribute cache and the request for its
  page ends in a \<open>RequestException\<close>: \<open>load_scrape_player_data\<close> returns \<open>None\<close>, and the
  state differs from the one before only by the request, so no file is written; the loop
  of \<open>main\<close> goes on to the next link with the rows it had, adding no row and raising
  nothing; and a later call for the same link on that state requests the page again,
  whatever the surroundings then answer.
\<close>

theorem load_scrape_player_data_transport_error:
  assumes "load_pickle (extracted_player_data_pickle st) link = None"
    and "get_page w (site @ link) = Inl RequestException"
  shows "load_scrape_player_data w link st = (Inr None, st\<lparr>fetched := fetched st @ [site @ link]\<rparr>) \<and>
         player_loop w year team (link # rest) row_data st =
           player_loop w year team rest row_data (st\<lparr>fetched := fetched st @ [site @ link]\<rparr>) \<and>
         (\<forall>w'. fetched (snd (load_scrape_player_data w' link
                   (st\<lparr>fetched := fetched st @ [site @ link]\<rparr>))) =
                fetched st @ [site @ link, site @ link])"
proof -
  have l: "load_scrape_player_data w link st =
             (Inr None, st\<lparr>fetched := fetched st @ [site @ link]\<rparr>)"
    using assms
    by (simp add: load_scrape_player_data_def scrape_player_data_def get_page_soup_def Let_def)
  have "\<forall>w'. fetched (snd (load_scrape_player_data w' link
                   (st\<lparr>fetched := fetched st @ [site @ link]\<rparr>))) =
                fetched st @ [site @ link, site @ link]"
    using assms(1) load_scrape_player_data_fetch [of "st\<lparr>fetched := fetched st @ [site @ link]\<rparr>" link]
    by simp
  with l show ?thesis by simp
qed

theorem load_scrape_player_data_transport_error_witness:
  "load_scrape_player_data demo_env ''/c-d/profil/spieler/2'' units_cached =
     (Inr None, units_cached\<lparr>fetched := [''https://www.transfermarkt.co.uk/c-d/profil/spieler/2'']\<rparr>) \<and>
   player_loop demo_env ''2020'' ''fc-a'' [''/c-d/profil/spieler/2''] [header_row] units_cached =
     (Inr [header_row],
      units_cached\<lparr>fetched := [''https://www.transfermarkt.co.uk/c-d/profil/spieler/2'']\<rparr>)"
proof -
  have c: "load_pickle (extracted_player_data_pickle units_cached) ''/c-d/profil/spieler/2'' = None"
    by (simp add: units_cached_def load_pickle_def)
  have g: "get_page demo_env (site @ ''/c-d/profil/spieler/2'') = Inl RequestException"
    by (simp add: demo_env_def site_def)
  have f: "fetched units_cached = []"
    by (simp add: units_cached_def)
  show ?thesis
    using load_scrape_player_data_transport_error [OF c g, of "''2020''" "''fc-a''" "[]" "[header_row]"] f
    by (simp add: site_def)
qed

end
